theory Spec2Isabelle
  imports Complex_Main "HOL-Library.Sublist" "HOL-Library.Char_ord" "HOL-Library.List_Lexorder"
begin

section \<open>The cache mixin (cache\_mixin.py)\<close>

text \<open>
  Python values of type \<open>Any\<close> are modelled as \<open>'v option\<close>: \<open>None\<close> is Python's
  \<open>None\<close>, \<open>Some x\<close> any other object. Python strings are modelled as \<open>string\<close>
  (the UTF-8 bytes of the text). Timestamps returned by \<open>time.time()\<close> are
  modelled as \<open>real\<close>; every reading of the clock is an explicit argument of the
  function that performs it, in the order in which the source reads it.
\<close>

subsection \<open>Cache entries and the store\<close>

record 'v cacheEntry =
  data :: "'v option"
  expires_at :: real
  created_at :: real

type_synonym 'v cache = "string \<rightharpoonup> 'v cacheEntry"

record 'v CacheMixin =
  cache :: "'v cache"
  default_ttl :: real

text \<open>An exception object that \<open>except Exception\<close> catches; the field is \<open>str(e)\<close>.\<close>

datatype pyexc = Exception (message: string)

subsection \<open>\_getCacheKey\<close>

text \<open>\<open>sep.join(parts)\<close>.\<close>

fun join :: "string \<Rightarrow> string list \<Rightarrow> string" where
  "join sep [] = []"
| "join sep [x] = x"
| "join sep (x # y # ys) = x @ sep @ join sep (y # ys)"

text \<open>
  \<open>str\<close> is Python's \<open>str\<close> on the argument values. \<open>kwargs\<close> is the keyword
  dictionary as the list of its items in the order the caller supplied them.
  \<open>sorted(kwargs.items())\<close> orders the (key, value) tuples; the keys of a dictionary
  are distinct, so the order is the order of the keys.
\<close>

definition getCacheKey ::
  "('a \<Rightarrow> string) \<Rightarrow> string \<Rightarrow> 'a list \<Rightarrow> (string \<times> 'a) list \<Rightarrow> string" where
  "getCacheKey str methodName args kwargs =
     join ''|'' ([methodName] @ map str args
                 @ map (\<lambda>(k, v). k @ ''='' @ str v) (sort_key fst kwargs))"

subsection \<open>\_isExpired, \_evictExpired, \_getCached, \_setCached\<close>

definition isExpired :: "real \<Rightarrow> 'v cacheEntry \<Rightarrow> bool" where
  "isExpired now cacheEntry = (now > expires_at cacheEntry)"

definition expiredKeys :: "real \<Rightarrow> 'v cache \<Rightarrow> string set" where
  "expiredKeys currentTime c =
     {key. case c key of None \<Rightarrow> False | Some entry \<Rightarrow> currentTime > expires_at entry}"

definition evictExpired :: "real \<Rightarrow> 'v cache \<Rightarrow> 'v cache" where
  "evictExpired currentTime c =
     (\<lambda>key. if key \<in> expiredKeys currentTime c then None else c key)"

text \<open>
  \<open>_getCached\<close> reads the clock in \<open>_evictExpired\<close> (\<open>t1\<close>, only when
  \<open>allowExpired\<close> is false) and in \<open>_isExpired\<close> (\<open>t2\<close>, only when the key is
  present and \<open>allowExpired\<close> is false). It returns the value and the store.
\<close>

definition getCached ::
  "real \<Rightarrow> real \<Rightarrow> 'v cache \<Rightarrow> string \<Rightarrow> bool \<Rightarrow> 'v option \<times> 'v cache" where
  "getCached t1 t2 c cacheKey allowExpired =
     (let c' = (if \<not> allowExpired then evictExpired t1 c else c) in
      case c' cacheKey of
        None \<Rightarrow> (None, c')
      | Some entry \<Rightarrow>
          if allowExpired \<or> \<not> isExpired t2 entry then (data entry, c') else (None, c'))"

definition resolveTtl :: "real \<Rightarrow> real option \<Rightarrow> real" where
  "resolveTtl dflt ttl = (case ttl of None \<Rightarrow> dflt | Some t \<Rightarrow> t)"

text \<open>
  \<open>_setCached\<close> reads the clock twice: \<open>t1\<close> for \<open>expires_at\<close>, then \<open>t2\<close> for
  \<open>created_at\<close>. The sum \<open>t1 + ttl\<close> is the exact sum of real numbers; the code
  adds IEEE doubles and stores the sum rounded to the nearest double. Rounding is
  monotone and leaves a sum that is itself a double unchanged, so a comparison
  \<open>t \<le> t1 + ttl\<close> of the model with a double \<open>t\<close> also holds of the stored value.
\<close>

definition setCached ::
  "real \<Rightarrow> real \<Rightarrow> real \<Rightarrow> 'v cache \<Rightarrow> string \<Rightarrow> 'v option \<Rightarrow> real option \<Rightarrow> 'v cache" where
  "setCached t1 t2 dflt c cacheKey d ttl =
     c(cacheKey \<mapsto> \<lparr>data = d, expires_at = t1 + resolveTtl dflt ttl, created_at = t2\<rparr>)"

subsection \<open>Classification of failures\<close>

definition lowerChar :: "char \<Rightarrow> char" where
  "lowerChar ch =
     (if CHR ''A'' \<le> ch \<and> ch \<le> CHR ''Z'' then char_of (of_char ch + (32::nat)) else ch)"

definition lower :: "string \<Rightarrow> string" where
  "lower s = map lowerChar s"

text \<open>\<open>needle in haystack\<close> on strings.\<close>

fun contains :: "string \<Rightarrow> string \<Rightarrow> bool" where
  "contains needle [] = (needle = [])"
| "contains needle (ch # rest) = (prefix needle (ch # rest) \<or> contains needle rest)"

definition isRateLimit :: "pyexc \<Rightarrow> bool" where
  "isRateLimit e =
     (let errorStr = lower (message e) in
        contains ''429'' errorStr
      \<or> contains ''rate limit exceeded'' errorStr
      \<or> contains ''too many requests'' errorStr
      \<or> contains ''rate limited'' errorStr)"

subsection \<open>\_cachedCall\<close>

text \<open>
  The clock readings of one call of \<open>_cachedCall\<close>, in program order: by
  \<open>_isExpired\<close> in the freshness test, by \<open>_setCached\<close> (twice) and by
  \<open>_evictExpired\<close>.
\<close>

record clockReads =
  t_fresh :: real
  t_expires :: real
  t_created :: real
  t_evict :: real

text \<open>
  \<open>methodFunc\<close> is an arbitrary callable with effects on a world \<open>'w\<close> outside
  the mixin; it returns a value or raises. The result of \<open>_cachedCall\<close> is the
  value returned or the exception raised, the mixin and the world.
\<close>

definition cachedCall ::
  "('a \<Rightarrow> string) \<Rightarrow> clockReads \<Rightarrow> string
   \<Rightarrow> ('a list \<Rightarrow> (string \<times> 'a) list \<Rightarrow> 'w \<Rightarrow> (pyexc + 'v option) \<times> 'w)
   \<Rightarrow> 'a list \<Rightarrow> real option \<Rightarrow> (string \<times> 'a) list
   \<Rightarrow> 'v CacheMixin \<times> 'w \<Rightarrow> (pyexc + 'v option) \<times> 'v CacheMixin \<times> 'w" where
  "cachedCall str clk methodName methodFunc args ttl kwargs sw =
     (let self = fst sw; w = snd sw;
          cacheKey = getCacheKey str methodName args kwargs;
          hit = (case cache self cacheKey of
                   None \<Rightarrow> None
                 | Some entry \<Rightarrow> if \<not> isExpired (t_fresh clk) entry then Some entry else None)
      in case hit of
        Some entry \<Rightarrow> (Inr (data entry), self, w)
      | None \<Rightarrow>
         (case methodFunc args kwargs w of
            (Inr result, w') \<Rightarrow>
              (if result \<noteq> None then
                 (Inr result,
                  self\<lparr>cache := evictExpired (t_evict clk)
                     (setCached (t_expires clk) (t_created clk) (default_ttl self)
                        (cache self) cacheKey result ttl)\<rparr>,
                  w')
               else (Inr result, self, w'))
          | (Inl e, w') \<Rightarrow>
              (if isRateLimit e then
                 (case cache self cacheKey of
                    Some entry \<Rightarrow> (Inr (data entry), self, w')
                  | None \<Rightarrow> (Inr None, self, w'))
               else (Inl e, self, w'))))"

subsection \<open>The invariant of the data model\<close>

text \<open>\<open>expiresAt >= createdAt\<close>, for one entry.\<close>

definition entryInvariant :: "'v cacheEntry \<Rightarrow> bool" where
  "entryInvariant entry = (created_at entry \<le> expires_at entry)"

text \<open>A key has a fresh entry: it is present and not expired at the reading.\<close>

definition isFresh :: "real \<Rightarrow> 'v cache \<Rightarrow> string \<Rightarrow> bool" where
  "isFresh now c cacheKey =
     (case c cacheKey of None \<Rightarrow> False | Some entry \<Rightarrow> \<not> isExpired now entry)"

section \<open>The provider chain (enhanced\_market\_data.py)\<close>

text \<open>
  A financial provider, as far as the chain uses it. \<open>getStockPrice\<close> returns
  \<open>Optional[StockData]\<close> or raises; \<open>getMultipleStocks\<close> returns a dictionary
  or raises, and the providers built on \<open>_cachedCall\<close> can also return \<open>None\<close>.
  \<open>StockData\<close> is a named tuple of five fields, so a returned object is truthy
  exactly when it is not \<open>None\<close>.
\<close>

record 'v provider =
  getStockPrice :: "string \<Rightarrow> pyexc + 'v option"
  getMultipleStocks :: "string list \<Rightarrow> pyexc + (string \<rightharpoonup> 'v) option"

text \<open>
  \<open>MockProvider.getStockData\<close> draws from the \<open>random\<close> module, whose state is
  \<open>'r\<close>; it always returns a \<open>StockData\<close>.
\<close>

type_synonym ('v, 'r) generator = "string \<Rightarrow> 'r \<Rightarrow> 'v \<times> 'r"

text \<open>\<open>MockProvider.getAllStocks\<close>: the comprehension over \<open>topStocks\<close>.\<close>

fun mockGetAllStocks :: "('v, 'r) generator \<Rightarrow> string list \<Rightarrow> 'r \<Rightarrow> 'v list \<times> 'r" where
  "mockGetAllStocks gen [] r = ([], r)"
| "mockGetAllStocks gen (symbol # rest) r =
     (case gen symbol r of (d, r1) \<Rightarrow>
        (case mockGetAllStocks gen rest r1 of (ds, r2) \<Rightarrow> (d # ds, r2)))"

text \<open>
  The loop of \<open>getStockData\<close> over \<open>financialProviders\<close>, from position \<open>i\<close>.
  It returns the data found, if any, and the positions of the providers whose
  \<open>getStockPrice\<close> it called, in the order of the calls.
\<close>

fun tryProviders :: "'v provider list \<Rightarrow> string \<Rightarrow> nat \<Rightarrow> 'v option \<times> nat list" where
  "tryProviders [] symbol i = (None, [])"
| "tryProviders (p # ps) symbol i =
     (case getStockPrice p symbol of
        Inr (Some d) \<Rightarrow> (Some d, [i])
      | Inr None \<Rightarrow> (case tryProviders ps symbol (Suc i) of (res, calls) \<Rightarrow> (res, i # calls))
      | Inl e \<Rightarrow> (case tryProviders ps symbol (Suc i) of (res, calls) \<Rightarrow> (res, i # calls)))"

definition getStockData ::
  "('v, 'r) generator \<Rightarrow> 'v provider list \<Rightarrow> string \<Rightarrow> 'r \<Rightarrow> 'v \<times> nat list \<times> 'r" where
  "getStockData gen financialProviders symbol r =
     (case tryProviders financialProviders symbol 0 of
        (Some d, calls) \<Rightarrow> (d, calls, r)
      | (None, calls) \<Rightarrow> (case gen symbol r of (d, r') \<Rightarrow> (d, calls, r')))"

text \<open>The loop of \<open>getAllStocks\<close> that mixes real and mock data.\<close>

fun mixRealMock ::
  "('v, 'r) generator \<Rightarrow> (string \<rightharpoonup> 'v) \<Rightarrow> string list \<Rightarrow> 'r \<Rightarrow> 'v list \<times> 'r" where
  "mixRealMock gen realData [] r = ([], r)"
| "mixRealMock gen realData (symbol # rest) r =
     (case realData symbol of
        Some d \<Rightarrow> (case mixRealMock gen realData rest r of (ds, r') \<Rightarrow> (d # ds, r'))
      | None \<Rightarrow>
          (case gen symbol r of (d, r1) \<Rightarrow>
             (case mixRealMock gen realData rest r1 of (ds, r2) \<Rightarrow> (d # ds, r2))))"

text \<open>
  \<open>getAllStocks\<close>; \<open>symbols\<close> is \<open>mockProvider.topStocks\<close>. When the provider
  returns \<open>None\<close>, the first test \<open>symbol in realData\<close> raises a \<open>TypeError\<close>,
  which the handler swallows like an exception of the provider itself.
\<close>

definition getAllStocks ::
  "('v, 'r) generator \<Rightarrow> 'v provider list \<Rightarrow> string list \<Rightarrow> 'r \<Rightarrow> 'v list \<times> 'r" where
  "getAllStocks gen financialProviders symbols r =
     (case financialProviders of
        [] \<Rightarrow> mockGetAllStocks gen symbols r
      | provider # others \<Rightarrow>
          (case getMultipleStocks provider symbols of
             Inr (Some realData) \<Rightarrow> mixRealMock gen realData symbols r
           | Inr None \<Rightarrow>
               (if symbols = [] then ([], r) else mockGetAllStocks gen symbols r)
           | Inl e \<Rightarrow> mockGetAllStocks gen symbols r))"

text \<open>A provider returns a non-empty result for a symbol.\<close>

definition yields :: "'v provider \<Rightarrow> string \<Rightarrow> bool" where
  "yields p symbol = (case getStockPrice p symbol of Inr (Some d) \<Rightarrow> True | _ \<Rightarrow> False)"

text \<open>
  The batch result of the highest-priority provider, as a dictionary: empty when
  there is no provider or its batch call gives no dictionary.
\<close>

definition batchResult :: "'v provider list \<Rightarrow> string list \<Rightarrow> (string \<rightharpoonup> 'v)" where
  "batchResult financialProviders symbols =
     (case financialProviders of
        [] \<Rightarrow> Map.empty
      | provider # others \<Rightarrow>
          (case getMultipleStocks provider symbols of
             Inr (Some realData) \<Rightarrow> realData
           | _ \<Rightarrow> Map.empty))"

section \<open>Concrete inputs\<close>

text \<open>
  A mixin with an empty cache and the default TTL of 300; a clock that stands
  still during a call; fetch operations in the manner of \<open>unittest.mock.Mock\<close>
  with \<open>return_value\<close> or \<open>side_effect\<close>, whose world is the call count.
\<close>

definition emptyCache :: "string cache" where
  "emptyCache = Map.empty"

definition emptyMixin :: "string CacheMixin" where
  "emptyMixin = \<lparr>cache = emptyCache, default_ttl = 300\<rparr>"

definition clockAt :: "real \<Rightarrow> clockReads" where
  "clockAt t = \<lparr>t_fresh = t, t_expires = t, t_created = t, t_evict = t\<rparr>"

definition mockReturn ::
  "string option \<Rightarrow> string list \<Rightarrow> (string \<times> string) list \<Rightarrow> nat \<Rightarrow> (pyexc + string option) \<times> nat" where
  "mockReturn result args kwargs callCount = (Inr result, Suc callCount)"

definition mockRaise ::
  "pyexc \<Rightarrow> string list \<Rightarrow> (string \<times> string) list \<Rightarrow> nat \<Rightarrow> (pyexc + string option) \<times> nat" where
  "mockRaise e args kwargs callCount = (Inl e, Suc callCount)"

text \<open>The identity, for arguments that are already strings.\<close>

definition strOf :: "string \<Rightarrow> string" where
  "strOf s = s"

text \<open>
  The scenario of the specification: key \<open>getStockPrice|AAPL\<close> cached at time 0
  with a TTL of 5; and a store with an entry \<open>A\<close> that expires at 5 and an entry
  \<open>B\<close> that expires at 20.
\<close>

definition staleMixin :: "string CacheMixin" where
  "staleMixin =
     \<lparr>cache = [''getStockPrice|AAPL'' \<mapsto> \<lparr>data = Some ''100.0'', expires_at = 5, created_at = 0\<rparr>],
      default_ttl = 300\<rparr>"

definition cacheAB :: "string cache" where
  "cacheAB = [''A'' \<mapsto> \<lparr>data = Some ''a'', expires_at = 5, created_at = 0\<rparr>,
              ''B'' \<mapsto> \<lparr>data = Some ''b'', expires_at = 20, created_at = 0\<rparr>]"

text \<open>
  Three providers: one that finds nothing, one that resolves every single symbol
  but only \<open>AAPL\<close> in a batch, and one that raises. The mock generator numbers its
  draws.
\<close>

definition provEmpty :: "string provider" where
  "provEmpty = \<lparr>getStockPrice = (\<lambda>symbol. Inr None),
                 getMultipleStocks = (\<lambda>symbols. Inr (Some Map.empty))\<rparr>"

definition provReal :: "string provider" where
  "provReal = \<lparr>getStockPrice = (\<lambda>symbol. Inr (Some (symbol @ '':real''))),
                getMultipleStocks = (\<lambda>symbols. Inr (Some [''AAPL'' \<mapsto> ''AAPL:real'']))\<rparr>"

definition provError :: "string provider" where
  "provError = \<lparr>getStockPrice = (\<lambda>symbol. Inl (Exception ''connection refused'')),
                 getMultipleStocks = (\<lambda>symbols. Inl (Exception ''connection refused''))\<rparr>"

definition mockGen :: "(string, nat) generator" where
  "mockGen symbol r = (symbol @ '':mock'', Suc r)"

section \<open>Properties of the store\<close>

lemma evictExpired_apply:
  "evictExpired now c key =
     (case c key of None \<Rightarrow> None
      | Some entry \<Rightarrow> if expires_at entry < now then None else Some entry)"
  by (simp add: evictExpired_def expiredKeys_def split: option.split)

lemma staleKey:
  "getCacheKey strOf ''getStockPrice'' [''AAPL''] [] = ''getStockPrice|AAPL''"
  by (simp add: getCacheKey_def strOf_def)

text \<open>
  A fetch that returns an object other than \<open>None\<close> when the key has no fresh
  entry: the object is stored, then the expired entries are evicted.
\<close>

lemma cachedCall_store:
  assumes "\<not> isFresh (t_fresh clk) (cache self) (getCacheKey str methodName args kwargs)"
    and "methodFunc args kwargs w = (Inr (Some v), w')"
  shows "cachedCall str clk methodName methodFunc args ttl kwargs (self, w) =
           (Inr (Some v),
            self\<lparr>cache := evictExpired (t_evict clk)
                    ((cache self)(getCacheKey str methodName args kwargs \<mapsto>
                       \<lparr>data = Some v,
                        expires_at = t_expires clk + resolveTtl (default_ttl self) ttl,
                        created_at = t_created clk\<rparr>))\<rparr>,
            w')"
  using assms by (simp add: cachedCall_def isFresh_def setCached_def Let_def split: option.splits)

subsection \<open>Eviction\<close>

text \<open>
  Claim C7. At every time \<open>now\<close> and for every store, \<open>_evictExpired\<close> removes
  exactly the entries whose \<open>expires_at\<close> is strictly before \<open>now\<close>: an entry
  present before is absent afterwards if \<open>expires_at < now\<close> and is unchanged
  otherwise, and no key is added. Evicting twice at the same time gives the same
  store as evicting once.
\<close>

theorem evictExpired_exact:
  "(\<forall>key entry. c key = Some entry \<longrightarrow>
      evictExpired now c key = (if expires_at entry < now then None else Some entry))
   \<and> (\<forall>key. c key = None \<longrightarrow> evictExpired now c key = None)
   \<and> evictExpired now (evictExpired now c) = evictExpired now c"
proof (intro conjI allI impI)
  fix key entry assume "c key = Some entry"
  then show "evictExpired now c key = (if expires_at entry < now then None else Some entry)"
    by (simp add: evictExpired_apply)
next
  fix key assume "c key = None"
  then show "evictExpired now c key = None" by (simp add: evictExpired_apply)
next
  show "evictExpired now (evictExpired now c) = evictExpired now c"
    by (rule ext) (simp add: evictExpired_apply split: option.split)
qed

theorem evictExpired_exact_witness:
  "cacheAB ''A'' = Some \<lparr>data = Some ''a'', expires_at = 5, created_at = 0\<rparr>
   \<and> cacheAB ''B'' = Some \<lparr>data = Some ''b'', expires_at = 20, created_at = 0\<rparr>
   \<and> cacheAB ''C'' = None
   \<and> evictExpired 10 cacheAB ''A'' = None
   \<and> evictExpired 10 cacheAB ''B'' = Some \<lparr>data = Some ''b'', expires_at = 20, created_at = 0\<rparr>
   \<and> evictExpired 10 cacheAB ''C'' = None
   \<and> evictExpired 10 (evictExpired 10 cacheAB) = evictExpired 10 cacheAB"
proof -
  have a: "cacheAB ''A'' = Some \<lparr>data = Some ''a'', expires_at = 5, created_at = 0\<rparr>"
    by (simp add: cacheAB_def)
  have b: "cacheAB ''B'' = Some \<lparr>data = Some ''b'', expires_at = 20, created_at = 0\<rparr>"
    by (simp add: cacheAB_def)
  have c: "cacheAB ''C'' = None"
    by (simp add: cacheAB_def)
  from evictExpired_exact [of cacheAB 10] a b c show ?thesis by simp
qed

subsection \<open>The cached call\<close>

text \<open>
  Claim C1. When the fetch raises a failure classified as rate-limited,
  \<open>_cachedCall\<close> does not raise: it returns the value of the entry stored under
  the key, fresh or stale, when there is one, and \<open>None\<close> when there is none; the
  mixin, and so its cache, is the same after the call as before.
\<close>

theorem cachedCall_rate_limited:
  assumes "methodFunc args kwargs w = (Inl e, w')" and "isRateLimit e"
  shows "fst (cachedCall str clk methodName methodFunc args ttl kwargs (self, w))
           = Inr (case cache self (getCacheKey str methodName args kwargs) of
                    None \<Rightarrow> None | Some entry \<Rightarrow> data entry)
         \<and> fst (snd (cachedCall str clk methodName methodFunc args ttl kwargs (self, w))) = self"
  using assms by (simp add: cachedCall_def Let_def split: option.split)

theorem cachedCall_rate_limited_witness:
  "isRateLimit (Exception ''429 rate limit'')
   \<and> fst (cachedCall strOf (clockAt 6) ''getStockPrice''
            (mockRaise (Exception ''429 rate limit'')) [''AAPL''] None [] (staleMixin, 0))
       = Inr (Some ''100.0'')
   \<and> fst (snd (cachedCall strOf (clockAt 6) ''getStockPrice''
            (mockRaise (Exception ''429 rate limit'')) [''AAPL''] None [] (staleMixin, 0)))
       = staleMixin
   \<and> fst (cachedCall strOf (clockAt 6) ''getStockPrice''
            (mockRaise (Exception ''429 rate limit'')) [''AAPL''] None [] (emptyMixin, 0))
       = Inr None"
proof -
  have r: "isRateLimit (Exception ''429 rate limit'')"
    by code_simp
  have f: "mockRaise (Exception ''429 rate limit'') [''AAPL''] [] 0
             = (Inl (Exception ''429 rate limit''), Suc 0)"
    by (simp add: mockRaise_def)
  have s: "cache staleMixin ''getStockPrice|AAPL''
             = Some \<lparr>data = Some ''100.0'', expires_at = 5, created_at = 0\<rparr>"
    by (simp add: staleMixin_def)
  have n: "cache emptyMixin ''getStockPrice|AAPL'' = None"
    by (simp add: emptyMixin_def emptyCache_def)
  from cachedCall_rate_limited [where methodFunc = "mockRaise (Exception ''429 rate limit'')"
      and args = "[''AAPL'']" and kwargs = "[]" and w = 0 and w' = "Suc 0"
      and e = "Exception ''429 rate limit''" and str = strOf and clk = "clockAt 6"
      and methodName = "''getStockPrice''" and ttl = None and self = staleMixin]
    cachedCall_rate_limited [where methodFunc = "mockRaise (Exception ''429 rate limit'')"
      and args = "[''AAPL'']" and kwargs = "[]" and w = 0 and w' = "Suc 0"
      and e = "Exception ''429 rate limit''" and str = strOf and clk = "clockAt 6"
      and methodName = "''getStockPrice''" and ttl = None and self = emptyMixin]
    f r s n
  show ?thesis by (simp add: staleKey)
qed

text \<open>
  Claim C4. When the key has no fresh entry, so that the fetch is invoked, and the
  fetch raises a failure that is not classified as rate-limited, \<open>_cachedCall\<close>
  raises that same failure, and the mixin after the call is the mixin before it.
\<close>

theorem cachedCall_hard_failure:
  assumes "\<not> isFresh (t_fresh clk) (cache self) (getCacheKey str methodName args kwargs)"
    and "methodFunc args kwargs w = (Inl e, w')" and "\<not> isRateLimit e"
  shows "cachedCall str clk methodName methodFunc args ttl kwargs (self, w) = (Inl e, self, w')"
  using assms by (auto simp add: cachedCall_def isFresh_def Let_def split: option.splits)

theorem cachedCall_hard_failure_witness:
  "\<not> isRateLimit (Exception ''Not a rate limit error'')
   \<and> cachedCall strOf (clockAt 6) ''getStockPrice''
        (mockRaise (Exception ''Not a rate limit error'')) [''AAPL''] None [] (staleMixin, 0)
       = (Inl (Exception ''Not a rate limit error''), staleMixin, 1)"
proof -
  have r: "\<not> isRateLimit (Exception ''Not a rate limit error'')"
    by code_simp
  have f: "mockRaise (Exception ''Not a rate limit error'') [''AAPL''] [] 0
             = (Inl (Exception ''Not a rate limit error''), 1)"
    by (simp add: mockRaise_def)
  have n: "\<not> isFresh (t_fresh (clockAt 6)) (cache staleMixin)
              (getCacheKey strOf ''getStockPrice'' [''AAPL''] [])"
    by (simp add: staleKey isFresh_def staleMixin_def clockAt_def isExpired_def)
  from cachedCall_hard_failure [where methodFunc = "mockRaise (Exception ''Not a rate limit error'')"
      and args = "[''AAPL'']" and kwargs = "[]" and w = 0 and w' = 1
      and e = "Exception ''Not a rate limit error''" and str = strOf and clk = "clockAt 6"
      and methodName = "''getStockPrice''" and ttl = None and self = staleMixin]
    n f r
  show ?thesis by simp
qed

text \<open>
  Claim C3. When the key has a fresh entry, \<open>_cachedCall\<close> returns its value
  and leaves the mixin and the world of the fetch as they were: the fetch is not
  invoked and nothing is evicted. Consequently, if a first call finds no fresh
  entry and fetches a value \<open>v\<close>, and a second call for the same key checks
  freshness no earlier than the eviction of the first call and no later than
  the TTL after the first call stamped the entry, then the second call returns
  \<open>v\<close> and the world is the one left by the single fetch of the first call.
\<close>

theorem cachedCall_fresh_hit:
  "(cache self (getCacheKey str methodName args kwargs) = Some entry
      \<and> \<not> isExpired (t_fresh clk) entry
    \<longrightarrow> cachedCall str clk methodName methodFunc args ttl kwargs (self, w)
          = (Inr (data entry), self, w))
   \<and> (\<not> isFresh (t_fresh clk) (cache self) (getCacheKey str methodName args kwargs)
      \<and> methodFunc args kwargs w = (Inr (Some v), w')
      \<and> t_evict clk \<le> t_fresh clk'
      \<and> t_fresh clk' \<le> t_expires clk + resolveTtl (default_ttl self) ttl
    \<longrightarrow> snd (snd (cachedCall str clk methodName methodFunc args ttl kwargs (self, w))) = w'
        \<and> cachedCall str clk' methodName methodFunc args ttl' kwargs
            (snd (cachedCall str clk methodName methodFunc args ttl kwargs (self, w)))
          = (Inr (Some v),
             fst (snd (cachedCall str clk methodName methodFunc args ttl kwargs (self, w))),
             w'))"
proof (intro conjI impI)
  assume "cache self (getCacheKey str methodName args kwargs) = Some entry
      \<and> \<not> isExpired (t_fresh clk) entry"
  then show "cachedCall str clk methodName methodFunc args ttl kwargs (self, w)
          = (Inr (data entry), self, w)"
    by (simp add: cachedCall_def Let_def)
next
  let ?K = "getCacheKey str methodName args kwargs"
  let ?e = "\<lparr>data = Some v, expires_at = t_expires clk + resolveTtl (default_ttl self) ttl,
              created_at = t_created clk\<rparr>"
  assume h: "\<not> isFresh (t_fresh clk) (cache self) ?K
      \<and> methodFunc args kwargs w = (Inr (Some v), w')
      \<and> t_evict clk \<le> t_fresh clk'
      \<and> t_fresh clk' \<le> t_expires clk + resolveTtl (default_ttl self) ttl"
  then have first: "cachedCall str clk methodName methodFunc args ttl kwargs (self, w) =
      (Inr (Some v), self\<lparr>cache := evictExpired (t_evict clk) ((cache self)(?K \<mapsto> ?e))\<rparr>, w')"
    by (simp add: cachedCall_store)
  show "snd (snd (cachedCall str clk methodName methodFunc args ttl kwargs (self, w))) = w'"
    by (simp add: first)
  have kept: "evictExpired (t_evict clk) ((cache self)(?K \<mapsto> ?e)) ?K = Some ?e"
    using h by (simp add: evictExpired_apply)
  have fresh: "\<not> isExpired (t_fresh clk') ?e"
    using h by (simp add: isExpired_def)
  show "cachedCall str clk' methodName methodFunc args ttl' kwargs
            (snd (cachedCall str clk methodName methodFunc args ttl kwargs (self, w)))
          = (Inr (Some v),
             fst (snd (cachedCall str clk methodName methodFunc args ttl kwargs (self, w))),
             w')"
    unfolding first using kept fresh
    by (simp add: cachedCall_def Let_def)
qed

theorem cachedCall_fresh_hit_witness:
  "cachedCall strOf (clockAt 3) ''getStockPrice'' (mockReturn (Some ''101.5'')) [''AAPL'']
      None [] (staleMixin, 0)
     = (Inr (Some ''100.0''), staleMixin, 0)
   \<and> fst (cachedCall strOf (clockAt 3) ''getStockPrice'' (mockReturn (Some ''101.5'')) [''AAPL'']
        None []
        (snd (cachedCall strOf (clockAt 0) ''getStockPrice'' (mockReturn (Some ''101.5''))
                [''AAPL''] (Some 5) [] (emptyMixin, 0))))
     = Inr (Some ''101.5'')
   \<and> snd (snd (cachedCall strOf (clockAt 3) ''getStockPrice'' (mockReturn (Some ''101.5''))
        [''AAPL''] None []
        (snd (cachedCall strOf (clockAt 0) ''getStockPrice'' (mockReturn (Some ''101.5''))
                [''AAPL''] (Some 5) [] (emptyMixin, 0)))))
     = 1"
proof -
  have s: "cache staleMixin (getCacheKey strOf ''getStockPrice'' [''AAPL''] [])
             = Some \<lparr>data = Some ''100.0'', expires_at = 5, created_at = 0\<rparr>
           \<and> \<not> isExpired (t_fresh (clockAt 3))
                 \<lparr>data = Some ''100.0'', expires_at = 5, created_at = 0\<rparr>"
    by (simp add: staleKey staleMixin_def clockAt_def isExpired_def)
  have t: "\<not> isFresh (t_fresh (clockAt 0)) (cache emptyMixin)
               (getCacheKey strOf ''getStockPrice'' [''AAPL''] [])
           \<and> mockReturn (Some ''101.5'') [''AAPL''] [] 0 = (Inr (Some ''101.5''), 1)
           \<and> t_evict (clockAt 0) \<le> t_fresh (clockAt 3)
           \<and> t_fresh (clockAt 3)
               \<le> t_expires (clockAt 0) + resolveTtl (default_ttl emptyMixin) (Some 5)"
    by (simp add: isFresh_def emptyMixin_def emptyCache_def mockReturn_def clockAt_def
          resolveTtl_def)
  from cachedCall_fresh_hit [where self = staleMixin and str = strOf
      and methodName = "''getStockPrice''" and args = "[''AAPL'']" and kwargs = "[]"
      and entry = "\<lparr>data = Some ''100.0'', expires_at = 5, created_at = 0\<rparr>"
      and clk = "clockAt 3" and methodFunc = "mockReturn (Some ''101.5'')" and ttl = None
      and w = 0] s
  have a: "cachedCall strOf (clockAt 3) ''getStockPrice'' (mockReturn (Some ''101.5''))
      [''AAPL''] None [] (staleMixin, 0) = (Inr (Some ''100.0''), staleMixin, 0)"
    by simp
  from cachedCall_fresh_hit [where self = emptyMixin and str = strOf
      and methodName = "''getStockPrice''" and args = "[''AAPL'']" and kwargs = "[]"
      and clk = "clockAt 0" and clk' = "clockAt 3"
      and methodFunc = "mockReturn (Some ''101.5'')" and ttl = "Some 5" and ttl' = None
      and w = 0 and v = "''101.5''" and w' = 1] t
  have b: "cachedCall strOf (clockAt 3) ''getStockPrice'' (mockReturn (Some ''101.5''))
      [''AAPL''] None []
        (snd (cachedCall strOf (clockAt 0) ''getStockPrice'' (mockReturn (Some ''101.5''))
                [''AAPL''] (Some 5) [] (emptyMixin, 0)))
     = (Inr (Some ''101.5''),
        fst (snd (cachedCall strOf (clockAt 0) ''getStockPrice'' (mockReturn (Some ''101.5''))
                [''AAPL''] (Some 5) [] (emptyMixin, 0))),
        1)"
    by blast
  from a b show ?thesis by simp
qed

text \<open>
  Claim C2, as the code has it. When the key has no fresh entry and the fetch
  succeeds, \<open>_cachedCall\<close> returns the result of the fetch. If the result is not
  \<open>None\<close>, the result is first stored under the key with the resolved TTL,
  replacing any previous entry for the key, and then all expired entries are
  evicted. If the result is \<open>None\<close>, nothing is stored and nothing is evicted:
  the mixin is unchanged.
\<close>

theorem cachedCall_success:
  assumes "\<not> isFresh (t_fresh clk) (cache self) (getCacheKey str methodName args kwargs)"
    and "methodFunc args kwargs w = (Inr result, w')"
  shows "cachedCall str clk methodName methodFunc args ttl kwargs (self, w) =
           (Inr result,
            (if result = None then self
             else self\<lparr>cache := evictExpired (t_evict clk)
                    ((cache self)(getCacheKey str methodName args kwargs \<mapsto>
                       \<lparr>data = result,
                        expires_at = t_expires clk + resolveTtl (default_ttl self) ttl,
                        created_at = t_created clk\<rparr>))\<rparr>),
            w')"
  using assms by (simp add: cachedCall_def isFresh_def setCached_def Let_def split: option.splits)

theorem cachedCall_success_witness:
  "fst (cachedCall strOf (clockAt 6) ''getStockPrice'' (mockReturn (Some ''101.5''))
          [''AAPL''] (Some 5) [] (staleMixin, 0))
     = Inr (Some ''101.5'')
   \<and> cache (fst (snd (cachedCall strOf (clockAt 6) ''getStockPrice''
          (mockReturn (Some ''101.5'')) [''AAPL''] (Some 5) [] (staleMixin, 0))))
        ''getStockPrice|AAPL''
     = Some \<lparr>data = Some ''101.5'', expires_at = 11, created_at = 6\<rparr>
   \<and> cachedCall strOf (clockAt 6) ''getStockPrice'' (mockReturn None)
          [''AAPL''] (Some 5) [] (staleMixin, 0)
     = (Inr None, staleMixin, 1)"
proof -
  have n: "\<not> isFresh (t_fresh (clockAt 6)) (cache staleMixin)
              (getCacheKey strOf ''getStockPrice'' [''AAPL''] [])"
    by (simp add: staleKey isFresh_def staleMixin_def clockAt_def isExpired_def)
  have f: "mockReturn (Some ''101.5'') [''AAPL''] [] 0 = (Inr (Some ''101.5''), 1)"
    by (simp add: mockReturn_def)
  have g: "mockReturn None [''AAPL''] [] 0 = (Inr None, 1)"
    by (simp add: mockReturn_def)
  from cachedCall_success [where methodFunc = "mockReturn (Some ''101.5'')"
      and args = "[''AAPL'']" and kwargs = "[]" and w = 0 and w' = 1
      and result = "Some ''101.5''" and str = strOf and clk = "clockAt 6"
      and methodName = "''getStockPrice''" and ttl = "Some 5" and self = staleMixin]
    n f
  have a: "cachedCall strOf (clockAt 6) ''getStockPrice'' (mockReturn (Some ''101.5''))
             [''AAPL''] (Some 5) [] (staleMixin, 0)
     = (Inr (Some ''101.5''),
        staleMixin\<lparr>cache := evictExpired (t_evict (clockAt 6))
           ((cache staleMixin)(''getStockPrice|AAPL'' \<mapsto>
              \<lparr>data = Some ''101.5'',
               expires_at = t_expires (clockAt 6) + resolveTtl (default_ttl staleMixin) (Some 5),
               created_at = t_created (clockAt 6)\<rparr>))\<rparr>,
        1)"
    by (simp add: staleKey)
  from cachedCall_success [where methodFunc = "mockReturn None"
      and args = "[''AAPL'']" and kwargs = "[]" and w = 0 and w' = 1
      and result = None and str = strOf and clk = "clockAt 6"
      and methodName = "''getStockPrice''" and ttl = "Some 5" and self = staleMixin]
    n g
  have b: "cachedCall strOf (clockAt 6) ''getStockPrice'' (mockReturn None)
             [''AAPL''] (Some 5) [] (staleMixin, 0) = (Inr None, staleMixin, 1)"
    by simp
  show ?thesis
    unfolding a b by (simp add: evictExpired_apply clockAt_def resolveTtl_def)
qed

text \<open>
  The claim as stated fails for a fetch that returns \<open>None\<close>: after the call
  the cache holds no entry for the key.
\<close>

theorem cachedCall_success_counterexample:
  "mockReturn None [''AAPL''] [] 0 = (Inr None, 1)
   \<and> fst (cachedCall strOf (clockAt 0) ''getStockPrice'' (mockReturn None)
            [''AAPL''] None [] (emptyMixin, 0)) = Inr None
   \<and> cache (fst (snd (cachedCall strOf (clockAt 0) ''getStockPrice'' (mockReturn None)
            [''AAPL''] None [] (emptyMixin, 0))))
        (getCacheKey strOf ''getStockPrice'' [''AAPL''] []) = None"
  by (simp add: cachedCall_def mockReturn_def emptyMixin_def emptyCache_def Let_def)

subsection \<open>The invariant of cache entries\<close>

text \<open>
  Claim C9. Every entry written by \<open>_setCached\<close> with a non-negative TTL should
  satisfy \<open>expires_at >= created_at\<close>. The code takes the two stamps of one
  write from two readings of the clock, \<open>expires_at\<close> from the first and
  \<open>created_at\<close> from the second. Run with a TTL of 0 on a clock that reads 0 and
  then 1, it writes an entry with \<open>expires_at = 0\<close> and \<open>created_at = 1\<close>, which
  breaks the invariant; the same call with both stamps taken at one reading writes
  an entry that satisfies it.
\<close>

theorem setCached_two_clock_readings:
  "(0::real) \<le> resolveTtl 300 (Some 0)
   \<and> setCached 0 1 300 emptyCache ''K'' (Some ''v'') (Some 0) ''K''
       = Some \<lparr>data = Some ''v'', expires_at = 0, created_at = 1\<rparr>
   \<and> \<not> entryInvariant \<lparr>data = Some ''v'', expires_at = 0, created_at = 1\<rparr>
   \<and> setCached 0 0 300 emptyCache ''K'' (Some ''v'') (Some 0) ''K''
       = Some \<lparr>data = Some ''v'', expires_at = 0, created_at = 0\<rparr>
   \<and> entryInvariant \<lparr>data = Some ''v'', expires_at = 0, created_at = 0\<rparr>"
  by (simp add: setCached_def resolveTtl_def entryInvariant_def)

subsection \<open>The cache key\<close>

lemma sorted_distinct_key_unique:
  assumes "sorted (map f xs)" "distinct (map f xs)" "sorted (map f ys)" "distinct (map f ys)"
    and "set xs = set ys"
  shows "xs = ys"
proof -
  have "set (map f xs) = set (map f ys)" using assms(5) by simp
  then have m: "map f xs = map f ys"
    using assms(1-4) by (intro sorted_distinct_set_unique) auto
  have "inj_on f (set xs \<union> set ys)"
    using assms(2,5) by (simp add: distinct_map)
  then show ?thesis using m by (simp add: inj_on_map_eq_map)
qed

lemma sort_key_same_items:
  assumes "distinct (map fst kwargs)" "distinct (map fst kwargs')" "set kwargs' = set kwargs"
  shows "sort_key fst kwargs' = sort_key fst kwargs"
proof (rule sorted_distinct_key_unique [where f = fst])
  show "sorted (map fst (sort_key fst kwargs'))" by simp
  show "sorted (map fst (sort_key fst kwargs))" by simp
  show "distinct (map fst (sort_key fst kwargs'))"
    using assms(2) by (metis distinct_map distinct_sort set_sort)
  show "distinct (map fst (sort_key fst kwargs))"
    using assms(1) by (metis distinct_map distinct_sort set_sort)
  show "set (sort_key fst kwargs') = set (sort_key fst kwargs)"
    using assms(3) by simp
qed

text \<open>
  Claim C8, as the code has it. For every method name and positional arguments,
  two keyword dictionaries with the same items give the same cache key, in
  whatever order the items were supplied. The order of the positional arguments
  is part of the key.
\<close>

theorem getCacheKey_kwargs_order:
  assumes "distinct (map fst kwargs)" and "distinct (map fst kwargs')"
    and "set kwargs' = set kwargs"
  shows "getCacheKey str methodName args kwargs' = getCacheKey str methodName args kwargs"
  using sort_key_same_items [OF assms] by (simp add: getCacheKey_def)

theorem getCacheKey_kwargs_order_witness:
  "getCacheKey strOf ''method'' [] [(''param2'', ''value2''), (''param1'', ''value1'')]
     = getCacheKey strOf ''method'' [] [(''param1'', ''value1''), (''param2'', ''value2'')]
   \<and> getCacheKey strOf ''method'' [] [(''param1'', ''value1''), (''param2'', ''value2'')]
     = ''method|param1=value1|param2=value2''"
proof -
  have d1: "distinct (map fst [(''param1'', ''value1''), (''param2'', ''value2'')])" by simp
  have d2: "distinct (map fst [(''param2'', ''value2''), (''param1'', ''value1'')])" by simp
  have s: "set [(''param2'', ''value2''), (''param1'', ''value1'')]
             = set [(''param1'', ''value1''), (''param2'', ''value2'')]" by auto
  have k: "getCacheKey strOf ''method'' [] [(''param1'', ''value1''), (''param2'', ''value2'')]
     = ''method|param1=value1|param2=value2''"
    by code_simp
  from getCacheKey_kwargs_order [OF d1 d2 s, of strOf "''method''" "[]"] k show ?thesis by simp
qed

text \<open>
  The claim as stated fails for positional arguments: exchanging two of them
  changes the key.
\<close>

theorem getCacheKey_positional_counterexample:
  "getCacheKey strOf ''method'' [''arg1'', ''arg2''] []
     \<noteq> getCacheKey strOf ''method'' [''arg2'', ''arg1''] []"
  by (simp add: getCacheKey_def strOf_def)

section \<open>Properties of the provider chain\<close>

lemma not_yields_cases:
  "\<not> yields p symbol \<Longrightarrow>
     getStockPrice p symbol = Inr None \<or> (\<exists>e. getStockPrice p symbol = Inl e)"
  by (auto simp add: yields_def split: sum.splits option.splits)

lemma tryProviders_skip:
  "\<not> yields p symbol \<Longrightarrow>
     tryProviders (p # ps) symbol n =
       (fst (tryProviders ps symbol (Suc n)), n # snd (tryProviders ps symbol (Suc n)))"
  by (auto dest!: not_yields_cases split: prod.splits)

lemma tryProviders_hit:
  "j < length ps \<Longrightarrow> getStockPrice (ps ! j) symbol = Inr (Some d)
     \<Longrightarrow> \<forall>i<j. \<not> yields (ps ! i) symbol
     \<Longrightarrow> tryProviders ps symbol n = (Some d, [n..<n + Suc j])"
proof (induction ps arbitrary: j n)
  case Nil
  then show ?case by simp
next
  case (Cons p ps)
  show ?case
  proof (cases j)
    case 0
    with Cons.prems show ?thesis by simp
  next
    case (Suc k)
    with Cons.prems have k: "k < length ps" "getStockPrice (ps ! k) symbol = Inr (Some d)"
      by simp_all
    from Cons.prems(3) Suc have skip: "\<not> yields p symbol" by auto
    from Cons.prems(3) Suc have rest: "\<forall>i<k. \<not> yields (ps ! i) symbol" by auto
    have "tryProviders ps symbol (Suc n) = (Some d, [Suc n..<Suc n + Suc k])"
      using Cons.IH [OF k rest] .
    moreover have "[n..<n + Suc j] = n # [Suc n..<Suc n + Suc k]"
      using Suc by (simp add: upt_conv_Cons del: upt_Suc)
    ultimately show ?thesis
      using skip by (simp add: tryProviders_skip del: tryProviders.simps upt_Suc)
  qed
qed

lemma tryProviders_none:
  "\<forall>i<length ps. \<not> yields (ps ! i) symbol
     \<Longrightarrow> tryProviders ps symbol n = (None, [n..<n + length ps])"
proof (induction ps arbitrary: n)
  case Nil
  then show ?case by simp
next
  case (Cons p ps)
  from Cons.prems have skip: "\<not> yields p symbol" by auto
  from Cons.prems have rest: "\<forall>i<length ps. \<not> yields (ps ! i) symbol" by auto
  from Cons.IH [OF rest] have "tryProviders ps symbol (Suc n) = (None, [Suc n..<Suc n + length ps])" .
  moreover have "[n..<n + length (p # ps)] = n # [Suc n..<Suc n + length ps]"
    by (simp add: upt_conv_Cons del: upt_Suc)
  ultimately show ?case
    using skip by (simp add: tryProviders_skip del: tryProviders.simps upt_Suc)
qed

text \<open>
  Claim C5. \<open>getStockData\<close> calls \<open>getStockPrice\<close> of the providers in list
  order. If provider \<open>j\<close> is the first to return a non-empty result, that result
  is returned and exactly the providers \<open>0, ..., j\<close> were called, in this order:
  every earlier provider returned nothing or raised and was passed over, and no
  later provider was called. If every provider returns nothing or raises, all of
  them were called in order and the result is the value the mock generator
  produces for the symbol; the function always returns a value.
\<close>

theorem getStockData_chain:
  "(j < length ps \<and> getStockPrice (ps ! j) symbol = Inr (Some d)
      \<and> (\<forall>i<j. \<not> yields (ps ! i) symbol)
    \<longrightarrow> getStockData gen ps symbol r = (d, [0..<Suc j], r))
   \<and> ((\<forall>i<length ps. \<not> yields (ps ! i) symbol)
    \<longrightarrow> getStockData gen ps symbol r
          = (fst (gen symbol r), [0..<length ps], snd (gen symbol r)))"
proof (intro conjI impI)
  assume "j < length ps \<and> getStockPrice (ps ! j) symbol = Inr (Some d)
      \<and> (\<forall>i<j. \<not> yields (ps ! i) symbol)"
  then have "tryProviders ps symbol 0 = (Some d, [0..<0 + Suc j])"
    by (intro tryProviders_hit) simp_all
  then show "getStockData gen ps symbol r = (d, [0..<Suc j], r)"
    by (simp add: getStockData_def)
next
  assume "\<forall>i<length ps. \<not> yields (ps ! i) symbol"
  then have "tryProviders ps symbol 0 = (None, [0..<0 + length ps])"
    by (rule tryProviders_none)
  then show "getStockData gen ps symbol r
          = (fst (gen symbol r), [0..<length ps], snd (gen symbol r))"
    by (simp add: getStockData_def split: prod.split)
qed

theorem getStockData_chain_witness:
  "getStockData mockGen [provEmpty, provError, provReal, provError] ''AAPL'' 0
     = (''AAPL:real'', [0, 1, 2], 0)
   \<and> getStockData mockGen [provEmpty, provError] ''AAPL'' 0 = (''AAPL:mock'', [0, 1], 1)"
proof -
  let ?ps = "[provEmpty, provError, provReal, provError]"
  have h1: "2 < length ?ps \<and> getStockPrice (?ps ! 2) ''AAPL'' = Inr (Some ''AAPL:real'')
      \<and> (\<forall>i<2. \<not> yields (?ps ! i) ''AAPL'')"
    by (simp add: provEmpty_def provError_def provReal_def yields_def less_Suc_eq numeral_2_eq_2)
  have h2: "\<forall>i<length [provEmpty, provError]. \<not> yields ([provEmpty, provError] ! i) ''AAPL''"
    by (simp add: provEmpty_def provError_def yields_def less_Suc_eq)
  have u: "[0..<Suc 2] = [0, 1, 2]" "[0..<length [provEmpty, provError]] = [0, 1]"
    by (simp_all add: upt_conv_Cons)
  from getStockData_chain [where j = 2 and ps = ?ps and symbol = "''AAPL''"
      and d = "''AAPL:real''" and gen = mockGen and r = 0] h1
  have a: "getStockData mockGen ?ps ''AAPL'' 0 = (''AAPL:real'', [0..<Suc 2], 0)" by blast
  from getStockData_chain [where ps = "[provEmpty, provError]" and symbol = "''AAPL''"
      and gen = mockGen and r = 0] h2
  have b: "getStockData mockGen [provEmpty, provError] ''AAPL'' 0
      = (fst (mockGen ''AAPL'' 0), [0..<length [provEmpty, provError]], snd (mockGen ''AAPL'' 0))"
    by blast
  from a b u show ?thesis by (simp add: mockGen_def)
qed

lemma mockGetAllStocks_all2:
  "list_all2 (\<lambda>symbol x. \<exists>r'. x = fst (gen symbol r')) symbols (fst (mockGetAllStocks gen symbols r))"
proof (induction symbols arbitrary: r)
  case Nil
  then show ?case by simp
next
  case (Cons s ss)
  obtain d r1 where g: "gen s r = (d, r1)" by (cases "gen s r")
  obtain ds r2 where m: "mockGetAllStocks gen ss r1 = (ds, r2)" by (cases "mockGetAllStocks gen ss r1")
  have "\<exists>r'. d = fst (gen s r')" using g by (metis fst_conv)
  moreover have "list_all2 (\<lambda>symbol x. \<exists>r'. x = fst (gen symbol r')) ss ds"
    using Cons.IH [of r1] m by simp
  ultimately show ?case using g m by simp
qed

lemma mixRealMock_all2:
  "list_all2 (\<lambda>symbol x. case realData symbol of Some v \<Rightarrow> x = v
                          | None \<Rightarrow> \<exists>r'. x = fst (gen symbol r'))
     symbols (fst (mixRealMock gen realData symbols r))"
proof (induction symbols arbitrary: r)
  case Nil
  then show ?case by simp
next
  case (Cons s ss)
  show ?case
  proof (cases "realData s")
    case (Some v)
    obtain ds r2 where m: "mixRealMock gen realData ss r = (ds, r2)"
      by (cases "mixRealMock gen realData ss r")
    with Cons.IH [of r] Some show ?thesis by simp
  next
    case None
    obtain d r1 where g: "gen s r = (d, r1)" by (cases "gen s r")
    obtain ds r2 where m: "mixRealMock gen realData ss r1 = (ds, r2)"
      by (cases "mixRealMock gen realData ss r1")
    have "\<exists>r'. d = fst (gen s r')" using g by (metis fst_conv)
    with Cons.IH [of r1] None g m show ?thesis by simp
  qed
qed

lemma getAllStocks_all2:
  "list_all2 (\<lambda>symbol x. case batchResult ps symbols symbol of Some v \<Rightarrow> x = v
                          | None \<Rightarrow> \<exists>r'. x = fst (gen symbol r'))
     symbols (fst (getAllStocks gen ps symbols r))"
proof (cases ps)
  case Nil
  then show ?thesis
    using mockGetAllStocks_all2 [where gen = gen and symbols = symbols and r = r]
    by (simp add: getAllStocks_def batchResult_def)
next
  case (Cons p others)
  show ?thesis
  proof (cases "getMultipleStocks p symbols")
    case (Inl e)
    with Cons show ?thesis
      using mockGetAllStocks_all2 [where gen = gen and symbols = symbols and r = r]
      by (simp add: getAllStocks_def batchResult_def)
  next
    case (Inr res)
    show ?thesis
    proof (cases res)
      case None
      with Cons Inr show ?thesis
        using mockGetAllStocks_all2 [where gen = gen and symbols = symbols and r = r]
        by (simp add: getAllStocks_def batchResult_def)
    next
      case (Some realData)
      with Cons Inr show ?thesis
        using mixRealMock_all2 [where realData = realData and gen = gen and symbols = symbols and r = r]
        by (simp add: getAllStocks_def batchResult_def)
    qed
  qed
qed

text \<open>
  Claim C6. For every list of symbols, \<open>getAllStocks\<close> returns a list of the
  same length, and position \<open>i\<close> holds the batch result of the first provider
  for symbol \<open>i\<close> when that result contains the symbol, and a value produced by
  the mock generator for symbol \<open>i\<close> otherwise; a provider that covers only some
  symbols does not make the other positions fall back.
\<close>

theorem getAllStocks_merge:
  "length (fst (getAllStocks gen ps symbols r)) = length symbols
   \<and> (\<forall>i<length symbols.
        case batchResult ps symbols (symbols ! i) of
          Some v \<Rightarrow> fst (getAllStocks gen ps symbols r) ! i = v
        | None \<Rightarrow> \<exists>r'. fst (getAllStocks gen ps symbols r) ! i = fst (gen (symbols ! i) r'))"
  using getAllStocks_all2 [where ps = ps and symbols = symbols and gen = gen and r = r]
  by (simp add: list_all2_conv_all_nth)

theorem getAllStocks_merge_witness:
  "fst (getAllStocks mockGen [provReal, provError] [''AAPL'', ''MSFT''] 0) = [''AAPL:real'', ''MSFT:mock'']
   \<and> length (fst (getAllStocks mockGen [provReal, provError] [''AAPL'', ''MSFT''] 0)) = 2"
proof -
  have v: "fst (getAllStocks mockGen [provReal, provError] [''AAPL'', ''MSFT''] 0)
             = [''AAPL:real'', ''MSFT:mock'']"
    by (simp add: getAllStocks_def provReal_def mockGen_def)
  from getAllStocks_merge [where gen = mockGen and ps = "[provReal, provError]"
      and symbols = "[''AAPL'', ''MSFT'']" and r = 0] v
  show ?thesis by simp
qed

text \<open>
  Claim C10. If \<open>getMultipleStocks\<close> of the first provider raises, \<open>getAllStocks\<close>
  does not raise and does no merging: its result is that of the mock provider's
  \<open>getAllStocks\<close>, one generated value per symbol.
\<close>

theorem getAllStocks_provider_raises:
  assumes "getMultipleStocks p symbols = Inl e"
  shows "getAllStocks gen (p # others) symbols r = mockGetAllStocks gen symbols r
         \<and> length (fst (getAllStocks gen (p # others) symbols r)) = length symbols
         \<and> (\<forall>i<length symbols. \<exists>r'.
               fst (getAllStocks gen (p # others) symbols r) ! i = fst (gen (symbols ! i) r'))"
proof -
  have eq: "getAllStocks gen (p # others) symbols r = mockGetAllStocks gen symbols r"
    using assms by (simp add: getAllStocks_def)
  show ?thesis
    unfolding eq using mockGetAllStocks_all2 [where gen = gen and symbols = symbols and r = r]
    by (simp add: list_all2_conv_all_nth)
qed

theorem getAllStocks_provider_raises_witness:
  "getMultipleStocks provError [''AAPL'', ''MSFT''] = Inl (Exception ''connection refused'')
   \<and> getAllStocks mockGen [provError, provReal] [''AAPL'', ''MSFT''] 0
       = ([''AAPL:mock'', ''MSFT:mock''], 2)"
proof -
  have h: "getMultipleStocks provError [''AAPL'', ''MSFT''] = Inl (Exception ''connection refused'')"
    by (simp add: provError_def)
  have m: "mockGetAllStocks mockGen [''AAPL'', ''MSFT''] 0 = ([''AAPL:mock'', ''MSFT:mock''], 2)"
    by (simp add: mockGen_def)
  from getAllStocks_provider_raises [OF h, where gen = mockGen and others = "[provReal]" and r = 0] h m
  show ?thesis by simp
qed

end
